theory Spec2Isabelle
  imports
    Complex_Main
    "HOL-Library.Char_ord"
    "HOL-Library.List_Lexorder"
    "HOL-Library.Product_Lexorder"
begin

section \<open>Summer Olympics medal dashboards: the filter-and-aggregate pipeline\<close>

text \<open>
  The repository holds two Streamlit scripts, \<^verbatim>\<open>app.py\<close> and \<^verbatim>\<open>app (1).py\<close>. Both read
  \<^verbatim>\<open>SummerOlympics_medals.csv\<close> into a pandas frame, filter it by a year range and derive
  the tables behind each chart. This theory embeds that data pipeline: the two
  \<^verbatim>\<open>load_data\<close> functions, the year filter \<^verbatim>\<open>dff\<close>, and every derived frame
  (\<^verbatim>\<open>bar_df\<close>, \<^verbatim>\<open>comp_df\<close>, \<^verbatim>\<open>trend_df\<close>, \<^verbatim>\<open>s_df\<close>, \<^verbatim>\<open>heat_df\<close>, \<^verbatim>\<open>pie_df\<close>, \<^verbatim>\<open>conv_df\<close>).
  Chart drawing, CSS and colours are not modelled.

  Conventions of the embedding.
  \<^item> A frame is the list of its rows, in index order; a row is a record of its columns.
  \<^item> A Python \<^verbatim>\<open>str\<close> is a \<^typ>\<open>string\<close> with one \<^typ>\<open>char\<close> per code point; code points
    above 255 are outside the model.
  \<^item> The numeric columns hold whole numbers (Python \<^verbatim>\<open>int\<close>, or a float64 of integral
    value, which pandas uses once a column has a NaN): they are \<^typ>\<open>int\<close>, and a NaN is
    \<^term>\<open>None\<close>. Infinite and fractional cells are outside the model. The one column that is
    computed in floating point, \<^verbatim>\<open>Gold %\<close>, is modelled in float64 arithmetic.
  \<^item> pandas routines are modelled by their documented behaviour: \<^verbatim>\<open>groupby\<close> sorts the group
    keys and leaves NaN keys out, \<^verbatim>\<open>sum\<close> skips NaN, \<^verbatim>\<open>nlargest\<close> keeps the first
    occurrences among ties and returns them in descending order. \<^verbatim>\<open>sort_values\<close> is modelled
    as a stable sort (pandas promises stability only for \<^verbatim>\<open>kind="stable"\<close>; the order it gives
    to equal keys is otherwise unspecified).
\<close>

subsection \<open>Errors\<close>

text \<open>
  The Python exceptions the scripts can raise in the modelled part, and \<^verbatim>\<open>ParameterError\<close>
  of the design document, which the scripts never construct.
\<close>

datatype error = ValueError | IndexError | TypeError | KeyError | ParameterError

subsection \<open>Strings: \<^verbatim>\<open>str.strip\<close> and \<^verbatim>\<open>str.lower\<close>\<close>

text \<open>The code points below 256 for which Python's \<^verbatim>\<open>str.isspace\<close> holds.\<close>

definition isspace :: "char \<Rightarrow> bool" where
  "isspace c \<longleftrightarrow>
     c \<in> set [CHR 0x09, CHR 0x0A, CHR 0x0B, CHR 0x0C, CHR 0x0D, CHR 0x1C, CHR 0x1D,
              CHR 0x1E, CHR 0x1F, CHR 0x20, CHR 0x85, CHR 0xA0]"

definition str_strip :: "string \<Rightarrow> string" where
  "str_strip s = rev (dropWhile isspace (rev (dropWhile isspace s)))"

text \<open>
  \<^verbatim>\<open>str.lower\<close> on code points below 256: A to Z, and the Latin-1 capitals 0xC0 to 0xDE
  but for the multiplication sign 0xD7, move up by 32.
\<close>

definition lower_char :: "char \<Rightarrow> char" where
  "lower_char c =
     (let n = (of_char c :: nat)
      in if (65 \<le> n \<and> n \<le> 90) \<or> (192 \<le> n \<and> n \<le> 222 \<and> n \<noteq> 215)
         then char_of (n + 32) else c)"

definition str_lower :: "string \<Rightarrow> string" where
  "str_lower s = map lower_char s"

subsection \<open>Frames\<close>

text \<open>
  A cell of a numeric column as \<^verbatim>\<open>pd.read_csv\<close> hands it over: empty (NaN), a number, or
  text that is not a number.
\<close>

datatype cell = NaN | Num int | Text string

text \<open>
  One row of the medal table. The three type parameters are the types of the Country
  column, of the Year column and of the other numeric columns, which change while the
  frame is cleaned.
\<close>

record ('c, 'y, 'n) medal_row =
  Country :: 'c
  Year :: 'y
  Rank :: 'n
  Golds :: 'n
  Silvers :: 'n
  Bronzes :: 'n
  Medals :: 'n

text \<open>
  \<open>raw_row\<close>: a row as read from the CSV file (a missing Country is NaN, \<^term>\<open>None\<close>).
  \<open>num_row\<close>: after the numeric columns are numbers or NaN.
  \<open>row\<close>: a row of a loaded frame \<^verbatim>\<open>df\<close> with numeric columns, whose Year is an integer.
  \<open>obj_row\<close>: a row of the frame that \<^verbatim>\<open>app.py\<close> loads, whose Year is an integer and whose
  other columns are as they were read.
\<close>

type_synonym raw_row = "(string option, cell, cell) medal_row"
type_synonym num_row = "(string option, int option, int option) medal_row"
type_synonym row = "(string option, int, int option) medal_row"
type_synonym obj_row = "(string option, int, cell) medal_row"

subsection \<open>\<^verbatim>\<open>load_data\<close> of \<^verbatim>\<open>app (1).py\<close>\<close>

text \<open>\<^verbatim>\<open>pd.to_numeric(df[col], errors="coerce")\<close>: what is not a number becomes NaN.\<close>

definition to_numeric :: "cell \<Rightarrow> int option" where
  "to_numeric c = (case c of NaN \<Rightarrow> None | Num n \<Rightarrow> Some n | Text s \<Rightarrow> None)"

text \<open>
  \<^verbatim>\<open>df["Year"] = df["Year"].astype(int)\<close> raises a \<^verbatim>\<open>ValueError\<close> (pandas'
  \<^verbatim>\<open>IntCastingNaNError\<close>) when the column holds a NaN.
\<close>

fun astype_int :: "num_row list \<Rightarrow> error + row list" where
  "astype_int [] = Inr []"
| "astype_int (r # rs) =
     (case Year r of
        None \<Rightarrow> Inl ValueError
      | Some y \<Rightarrow>
          (case astype_int rs of
             Inl e \<Rightarrow> Inl e
           | Inr rs' \<Rightarrow>
               Inr (\<lparr>Country = Country r, Year = y, Rank = Rank r, Golds = Golds r,
                     Silvers = Silvers r, Bronzes = Bronzes r, Medals = Medals r\<rparr> # rs')))"

definition placeholders :: "string list" where
  "placeholders = [''nan'', ''none'', '''', ''n/a'']"

text \<open>
  \<^verbatim>\<open>df["Country"].str.lower().isin(["nan","none","","n/a"])\<close>; on a NaN the string accessor
  gives NaN, which is in no list.
\<close>

definition is_placeholder :: "string option \<Rightarrow> bool" where
  "is_placeholder c = (case c of None \<Rightarrow> False | Some s \<Rightarrow> str_lower s \<in> set placeholders)"

text \<open>
  Lines 70 to 83 of \<^verbatim>\<open>app (1).py\<close>, one binding per statement. The argument is the frame
  returned by \<^verbatim>\<open>pd.read_csv\<close>, with its column headers already stripped.
\<close>

definition load_data :: "raw_row list \<Rightarrow> error + row list" where
  "load_data csv =
     (let df1 = map (\<lambda>r. \<lparr>Country = Country r, Year = to_numeric (Year r),
                           Rank = to_numeric (Rank r), Golds = to_numeric (Golds r),
                           Silvers = to_numeric (Silvers r), Bronzes = to_numeric (Bronzes r),
                           Medals = to_numeric (Medals r)\<rparr>) csv;
          df2 = filter (\<lambda>r. Country r \<noteq> None) df1;
          df3 = map (\<lambda>r. r\<lparr>Country := map_option str_strip (Country r)\<rparr>) df2;
          df4 = filter (\<lambda>r. \<not> is_placeholder (Country r)) df3;
          df5 = filter (\<lambda>r. Year r \<noteq> None \<and> Medals r \<noteq> None) df4
      in astype_int df5)"

subsection \<open>\<^verbatim>\<open>load_data\<close> of \<^verbatim>\<open>app.py\<close>\<close>

text \<open>
  \<^verbatim>\<open>df["Year"] = df["Year"].astype(int)\<close> on the column as it was read: a number is cast, a
  NaN and text that is not a number raise a \<^verbatim>\<open>ValueError\<close>. The other columns stay as they
  are.
\<close>

fun astype_int_raw :: "raw_row list \<Rightarrow> error + obj_row list" where
  "astype_int_raw [] = Inr []"
| "astype_int_raw (r # rs) =
     (case Year r of
        Num y \<Rightarrow>
          (case astype_int_raw rs of
             Inl e \<Rightarrow> Inl e
           | Inr rs' \<Rightarrow>
               Inr (\<lparr>Country = Country r, Year = y, Rank = Rank r, Golds = Golds r,
                     Silvers = Silvers r, Bronzes = Bronzes r, Medals = Medals r\<rparr> # rs'))
      | NaN \<Rightarrow> Inl ValueError
      | Text s \<Rightarrow> Inl ValueError)"

text \<open>
  Lines 43 to 47 of \<^verbatim>\<open>app.py\<close>: after the headers are stripped, the cast of Year is all
  that happens to the frame.
\<close>

definition load_data_app :: "raw_row list \<Rightarrow> error + obj_row list" where
  "load_data_app csv = astype_int_raw csv"

text \<open>
  The filter and the views below are modelled on frames of type \<open>row\<close>, whose medal columns
  are numbers or NaN. \<^verbatim>\<open>load_data\<close> of \<^verbatim>\<open>app (1).py\<close> returns such a frame. The frame of
  \<^verbatim>\<open>app.py\<close> is one when \<^verbatim>\<open>read_csv\<close> found no text in those columns; what pandas computes
  on a column of dtype object is not modelled.
\<close>

subsection \<open>The year filter\<close>

text \<open>
  \<^verbatim>\<open>dff = df[(df["Year"] >= year_range[0]) & (df["Year"] <= year_range[1])].copy()\<close>
  (line 120 of \<^verbatim>\<open>app (1).py\<close>, lines 82 and 83 of \<^verbatim>\<open>app.py\<close>): a boolean mask, one entry
  per row, and the rows at which it is true.
\<close>

definition dff :: "row list \<Rightarrow> int \<times> int \<Rightarrow> row list" where
  "dff df year_range =
     (let mask = map (\<lambda>r. Year r \<ge> fst year_range \<and> Year r \<le> snd year_range) df
      in map fst (filter snd (zip df mask)))"

subsection \<open>pandas primitives\<close>

text \<open>
  \<^verbatim>\<open>groupby(key)\<close>: the distinct keys in sorted order, each with its rows in frame order.
  A row whose key is NaN belongs to no group.
\<close>

definition groupby :: "('r \<Rightarrow> 'k::linorder option) \<Rightarrow> 'r list \<Rightarrow> ('k \<times> 'r list) list" where
  "groupby key t =
     map (\<lambda>k. (k, filter (\<lambda>r. key r = Some k) t)) (sort (remdups (List.map_filter key t)))"

text \<open>\<^verbatim>\<open>sum\<close> of a column skips NaN; the sum of no number is 0.\<close>

definition skipna_sum :: "int option list \<Rightarrow> int" where
  "skipna_sum vs = sum_list (map (\<lambda>v. case v of None \<Rightarrow> 0 | Some n \<Rightarrow> n) vs)"

text \<open>\<^verbatim>\<open>groupby("Country")[col].sum()\<close>: a series indexed by country.\<close>

definition sum_by_country :: "(row \<Rightarrow> int option) \<Rightarrow> row list \<Rightarrow> (string \<times> int) list" where
  "sum_by_country col t = map (\<lambda>(c, g). (c, skipna_sum (map col g))) (groupby Country t)"

text \<open>
  \<^verbatim>\<open>Series.nlargest(n)\<close> with the default \<^verbatim>\<open>keep="first"\<close>: nothing for \<open>n \<le> 0\<close>, else the
  first \<open>n\<close> entries of the series sorted by descending value, equal values in their order
  of appearance.
\<close>

definition nlargest :: "int \<Rightarrow> ('a \<times> int) list \<Rightarrow> ('a \<times> int) list" where
  "nlargest n s = (if n \<le> 0 then [] else take (nat n) (sort_key (\<lambda>p. - snd p) s))"

text \<open>
  \<^verbatim>\<open>Series.idxmax()\<close>: the label of the first occurrence of the maximum; a \<^verbatim>\<open>ValueError\<close> on
  an empty series.
\<close>

definition idxmax :: "('a \<times> int) list \<Rightarrow> error + 'a" where
  "idxmax s =
     (case s of
        [] \<Rightarrow> Inl ValueError
      | p # ps \<Rightarrow> Inr (fst (foldl (\<lambda>best q. if snd q > snd best then q else best) p ps)))"

text \<open>\<^verbatim>\<open>df["Country"].isin(names)\<close>: false on a NaN.\<close>

definition isin :: "string option \<Rightarrow> string list \<Rightarrow> bool" where
  "isin c names = (case c of None \<Rightarrow> False | Some s \<Rightarrow> s \<in> set names)"

text \<open>The sidebar's radio button chooses the column that the ranking charts sum.\<close>

datatype medal_type = ColGolds | ColSilvers | ColBronzes | ColMedals

fun column :: "medal_type \<Rightarrow> row \<Rightarrow> int option" where
  "column ColGolds r = Golds r"
| "column ColSilvers r = Silvers r"
| "column ColBronzes r = Bronzes r"
| "column ColMedals r = Medals r"

subsection \<open>KPI cards\<close>

text \<open>\<^verbatim>\<open>nunique()\<close> counts the distinct values that are not NaN.\<close>

definition k1 :: "row list \<Rightarrow> nat" where
  "k1 t = length (remdups (map Year t))"

definition k2 :: "row list \<Rightarrow> nat" where
  "k2 t = length (remdups (List.map_filter Country t))"

definition k3 :: "row list \<Rightarrow> int" where
  "k3 t = skipna_sum (map Medals t)"

text \<open>
  \<^verbatim>\<open>dff.groupby("Country")["Medals"].sum().idxmax()\<close>: \<^verbatim>\<open>k4\<close> of \<^verbatim>\<open>app (1).py\<close> and
  \<^verbatim>\<open>top_country\<close> of \<^verbatim>\<open>app.py\<close>.
\<close>

definition k4 :: "row list \<Rightarrow> error + string" where
  "k4 t = idxmax (sum_by_country Medals t)"

subsection \<open>Chart 1: top countries by the chosen medal type\<close>

text \<open>
  \<^verbatim>\<open>bar_df\<close> (lines 148 to 154 of \<^verbatim>\<open>app (1).py\<close>) and \<^verbatim>\<open>top_df\<close> (lines 115 to 121 of
  \<^verbatim>\<open>app.py\<close>) are the same expression: the largest \<open>top_n\<close> sums, then sorted by ascending
  value for the horizontal bars.
\<close>

definition bar_df :: "row list \<Rightarrow> medal_type \<Rightarrow> int \<Rightarrow> (string \<times> int) list" where
  "bar_df t mt top_n = sort_key snd (nlargest top_n (sum_by_country (column mt) t))"

subsection \<open>Chart 2: medal composition of the top countries\<close>

definition top_names :: "row list \<Rightarrow> int \<Rightarrow> string list" where
  "top_names t top_n = map fst (nlargest top_n (sum_by_country Medals t))"

definition comp_df :: "row list \<Rightarrow> int \<Rightarrow> (string \<times> int \<times> int \<times> int) list" where
  "comp_df t top_n =
     sort_key (\<lambda>(c, g, s, b). - g)
       (map (\<lambda>(c, g). (c, skipna_sum (map Golds g), skipna_sum (map Silvers g),
                          skipna_sum (map Bronzes g)))
            (groupby Country (filter (\<lambda>r. isin (Country r) (top_names t top_n)) t)))"

subsection \<open>Chart 3: trend over time for the spotlight countries\<close>

text \<open>
  The frame built inside \<^verbatim>\<open>if selected_countries:\<close>: one row (Year, Country, sum) per
  group, the groups ordered by Year and then Country.
\<close>

definition trend_df :: "row list \<Rightarrow> string list \<Rightarrow> medal_type \<Rightarrow> ((int \<times> string) \<times> int) list" where
  "trend_df t selected_countries mt =
     map (\<lambda>(k, g). (k, skipna_sum (map (column mt) g)))
         (groupby (\<lambda>r. map_option (\<lambda>c. (Year r, c)) (Country r))
                  (filter (\<lambda>r. isin (Country r) selected_countries) t))"

subsection \<open>Chart 4: golds against total medals\<close>

definition scatter_df :: "row list \<Rightarrow> (string \<times> int \<times> int \<times> int \<times> int) list" where
  "scatter_df t =
     map (\<lambda>(c, g). (c, skipna_sum (map Golds g), skipna_sum (map Silvers g),
                        skipna_sum (map Bronzes g), skipna_sum (map Medals g)))
         (groupby Country t)"

text \<open>\<^verbatim>\<open>app (1).py\<close> drops the countries without a bronze medal.\<close>

definition s_df :: "row list \<Rightarrow> (string \<times> int \<times> int \<times> int \<times> int) list" where
  "s_df t = filter (\<lambda>(c, g, s, b, m). b > 0) (scatter_df t)"

subsection \<open>Chart 5: heatmap of countries against decades\<close>

text \<open>\<^verbatim>\<open>astype(str)\<close> on an integer: its decimal digits, with a minus sign when negative.\<close>

definition digit_char :: "nat \<Rightarrow> char" where
  "digit_char d = char_of (48 + d)"

fun str_nat :: "nat \<Rightarrow> string" where
  "str_nat n = (if n < 10 then [digit_char n] else str_nat (n div 10) @ [digit_char (n mod 10)])"

declare str_nat.simps [simp del]

definition str_int :: "int \<Rightarrow> string" where
  "str_int i = (if i < 0 then CHR ''-'' # str_nat (nat (- i)) else str_nat (nat i))"

text \<open>
  \<^verbatim>\<open>dff["Decade"] = (dff["Year"] // 10 * 10).astype(str) + "s"\<close>; \<^verbatim>\<open>//\<close> rounds towards minus
  infinity, as \<^term>\<open>(div)\<close> on \<^typ>\<open>int\<close> does.
\<close>

definition Decade :: "row \<Rightarrow> string" where
  "Decade r = str_int (Year r div 10 * 10) @ ''s''"

text \<open>The heatmap's countries: \<^verbatim>\<open>nlargest(20)\<close>, whatever the slider says.\<close>

definition top20 :: "row list \<Rightarrow> string list" where
  "top20 t = map fst (nlargest 20 (sum_by_country Medals t))"

text \<open>\<^verbatim>\<open>.groupby(["Country", "Decade"])["Medals"].sum()\<close> over the rows of those countries.\<close>

definition decade_sums :: "row list \<Rightarrow> ((string \<times> string) \<times> int) list" where
  "decade_sums t =
     map (\<lambda>(k, g). (k, skipna_sum (map Medals g)))
         (groupby (\<lambda>r. map_option (\<lambda>c. (c, Decade r)) (Country r))
                  (filter (\<lambda>r. isin (Country r) (top20 t)) t))"

text \<open>
  \<^verbatim>\<open>unstack(fill_value=...)\<close> of a series with a two-level index: a frame with one row per
  first-level label and one column per second-level label, both sorted; a pair that the
  series does not have gets the fill value. A frame of this kind is the list of its rows,
  each a label with its cells, each cell a column label with its value.
\<close>

definition unstack ::
  "'v \<Rightarrow> (('a::linorder \<times> 'b::linorder) \<times> 'v) list \<Rightarrow> ('a \<times> ('b \<times> 'v) list) list" where
  "unstack fill_value s =
     (let index = sort (remdups (map (\<lambda>p. fst (fst p)) s));
          columns = sort (remdups (map (\<lambda>p. snd (fst p)) s))
      in map (\<lambda>a. (a, map (\<lambda>b. (b, case map_of s (a, b) of None \<Rightarrow> fill_value | Some v \<Rightarrow> v))
                           columns)) index)"

text \<open>\<^verbatim>\<open>heat_df\<close> of \<^verbatim>\<open>app.py\<close> (lines 210 to 217).\<close>

definition heat_df_app :: "row list \<Rightarrow> (string \<times> (string \<times> int) list) list" where
  "heat_df_app t = unstack 0 (decade_sums t)"

text \<open>
  \<^verbatim>\<open>app (1).py\<close> then orders the rows by total medals (lines 262 and 263).
  \<^verbatim>\<open>reindex\<close> gives a row of NaN to a label that the frame does not have.
\<close>

definition row_order :: "row list \<Rightarrow> string list" where
  "row_order t =
     map fst (sort_key (\<lambda>p. - snd p)
                (sum_by_country Medals (filter (\<lambda>r. isin (Country r) (top20 t)) t)))"

definition reindex ::
  "'a list \<Rightarrow> ('a \<times> ('b \<times> int) list) list \<Rightarrow> ('a \<times> ('b \<times> int option) list) list" where
  "reindex labels h =
     map (\<lambda>a. (a, case map_of h a of
                     Some cells \<Rightarrow> map (\<lambda>(b, v). (b, Some v)) cells
                   | None \<Rightarrow> (case h of [] \<Rightarrow> [] | (a', cells) # h' \<Rightarrow> map (\<lambda>(b, v). (b, None)) cells)))
         labels"

definition heat_df :: "row list \<Rightarrow> (string \<times> (string \<times> int option) list) list" where
  "heat_df t = reindex (row_order t) (heat_df_app t)"

text \<open>\<^verbatim>\<open>frame.loc[a, b]\<close>: the cell in row \<open>a\<close> and column \<open>b\<close>, a \<^verbatim>\<open>KeyError\<close> without it.\<close>

definition loc :: "('a \<times> ('b \<times> 'v) list) list \<Rightarrow> 'a \<Rightarrow> 'b \<Rightarrow> error + 'v" where
  "loc h a b =
     (case map_of h a of
        None \<Rightarrow> Inl KeyError
      | Some cells \<Rightarrow> (case map_of cells b of None \<Rightarrow> Inl KeyError | Some v \<Rightarrow> Inr v))"

subsection \<open>Chart 6: share of the ten largest\<close>

definition pie_df :: "row list \<Rightarrow> medal_type \<Rightarrow> (string \<times> int) list" where
  "pie_df t mt = nlargest 10 (sum_by_country (column mt) t)"

subsection \<open>Chart 7: gold conversion rate\<close>

text \<open>
  The script divides, multiplies and rounds in float64. A finite float64 is a rational
  number, and each operation returns the float64 nearest to the exact result, a tie going
  to the one with an even significand. \<^term>\<open>float64\<close> is that rounding: it scales its
  argument to have an integer part of 53 bits and rounds it to an integer. Overflow and
  subnormal numbers are left out: the medal sums of a table do not reach them.
\<close>

definition round_half_even :: "rat \<Rightarrow> int" where
  "round_half_even x =
     (let f = \<lfloor>x\<rfloor>; d = x - of_int f
      in if d < 1 / 2 then f else if d > 1 / 2 then f + 1 else if even f then f else f + 1)"

function bit_length :: "int \<Rightarrow> int" where
  "bit_length n = (if n \<le> 0 then 0 else 1 + bit_length (n div 2))"
  by pat_completeness auto
termination
  by (relation "measure nat") auto

declare bit_length.simps [simp del]

definition float64 :: "rat \<Rightarrow> rat" where
  "float64 x =
     (if x = 0 then 0
      else
        let a = \<bar>x\<bar>;
            d = bit_length (fst (quotient_of a)) - bit_length (snd (quotient_of a));
            e = (if 2 powi d \<le> a then d else d - 1) - 52
        in of_int (round_half_even (x / 2 powi e)) * 2 powi e)"

text \<open>An integer as a float64, and the operators \<^verbatim>\<open>/\<close> and \<^verbatim>\<open>*\<close> on float64 values.\<close>

definition to_float :: "int \<Rightarrow> rat" where
  "to_float i = float64 (of_int i)"

definition fdiv :: "rat \<Rightarrow> rat \<Rightarrow> rat" where
  "fdiv x y = float64 (x / y)"

definition fmul :: "rat \<Rightarrow> rat \<Rightarrow> rat" where
  "fmul x y = float64 (x * y)"

text \<open>
  \<^verbatim>\<open>round(1)\<close> is numpy's: the value times ten, \<^verbatim>\<open>rint\<close> (to the nearest integer, halves to
  the even one), divided by ten.
\<close>

definition np_round1 :: "rat \<Rightarrow> rat" where
  "np_round1 x = fdiv (of_int (round_half_even (fmul x 10))) 10"

text \<open>
  \<^verbatim>\<open>(conv_df["Golds"] / conv_df["Medals"] * 100).round(1)\<close>. pandas does not raise on a zero
  denominator: the quotient is then infinite or NaN, and the model has \<^term>\<open>None\<close> for both.
\<close>

definition gold_pct :: "int \<Rightarrow> int \<Rightarrow> rat option" where
  "gold_pct g m =
     (if m = 0 then None
      else Some (np_round1 (fmul (fdiv (to_float g) (to_float m)) 100)))"

text \<open>
  From the design document's words, for comparison: \<open>round(100 * totalGolds / totalMedals,
  1 decimal)\<close> as a number, the exact quotient rounded to one decimal.
\<close>

definition spec_percent :: "int \<Rightarrow> int \<Rightarrow> rat" where
  "spec_percent g m = of_int (round_half_even (100 * of_int g / of_int m * 10)) / 10"

text \<open>Lines 307 and 308: the sums per country, and the countries with 20 medals or more.\<close>

definition conv_kept :: "row list \<Rightarrow> (string \<times> int \<times> int) list" where
  "conv_kept t =
     filter (\<lambda>(c, g, m). m \<ge> 20)
       (map (\<lambda>(c, grp). (c, skipna_sum (map Golds grp), skipna_sum (map Medals grp)))
            (groupby Country t))"

text \<open>Sort keys that put a NaN last, as \<^verbatim>\<open>nlargest\<close> and \<^verbatim>\<open>sort_values\<close> do.\<close>

definition desc_key :: "rat option \<Rightarrow> nat \<times> rat" where
  "desc_key p = (case p of None \<Rightarrow> (1, 0) | Some q \<Rightarrow> (0, - q))"

definition asc_key :: "rat option \<Rightarrow> nat \<times> rat" where
  "asc_key p = (case p of None \<Rightarrow> (1, 0) | Some q \<Rightarrow> (0, q))"

text \<open>Lines 309 and 310: the column \<^verbatim>\<open>Gold %\<close>, its \<open>top_n\<close> largest rows, sorted ascending.\<close>

definition conv_df :: "row list \<Rightarrow> int \<Rightarrow> (string \<times> int \<times> int \<times> rat option) list" where
  "conv_df t top_n =
     (let conv = map (\<lambda>(c, g, m). (c, g, m, gold_pct g m)) (conv_kept t);
          top = (if top_n \<le> 0 then []
                 else take (nat top_n) (sort_key (\<lambda>(c, g, m, p). desc_key p) conv))
      in sort_key (\<lambda>(c, g, m, p). asc_key p) top)"

subsection \<open>The raw data table\<close>

text \<open>\<^verbatim>\<open>sort_values(["Year", "Rank"])\<close>, a NaN rank last within its year.\<close>

definition raw_table :: "row list \<Rightarrow> row list" where
  "raw_table t =
     sort_key (\<lambda>r. (Year r, case Rank r of None \<Rightarrow> (1::nat, 0::int) | Some k \<Rightarrow> (0, k))) t"

subsection \<open>The two scripts\<close>

text \<open>What the sidebar widgets return.\<close>

record params =
  year_range :: "int \<times> int"
  top_n :: int
  selected_countries :: "string list"
  medal_type :: medal_type

text \<open>
  The sidebar reads the whole frame: \<^verbatim>\<open>years[0]\<close> raises an \<^verbatim>\<open>IndexError\<close> on an empty
  frame, and \<^verbatim>\<open>sorted(df["Country"].unique())\<close> a \<^verbatim>\<open>TypeError\<close> when it has to compare a
  NaN with a string. Streamlit's own checks of the widget arguments are not modelled.
\<close>

definition sidebar :: "row list \<Rightarrow> error + unit" where
  "sidebar df =
     (if df = [] then Inl IndexError
      else if list_ex (\<lambda>r. Country r = None) df \<and> list_ex (\<lambda>r. Country r \<noteq> None) df
      then Inl TypeError
      else Inr ())"

text \<open>Everything \<^verbatim>\<open>app (1).py\<close> computes from \<^verbatim>\<open>dff\<close>, in the order of the script.\<close>

record page =
  out_k1 :: nat
  out_k2 :: nat
  out_k3 :: int
  out_k4 :: string
  out_bar_df :: "(string \<times> int) list"
  out_comp_df :: "(string \<times> int \<times> int \<times> int) list"
  out_trend_df :: "((int \<times> string) \<times> int) list option"
  out_s_df :: "(string \<times> int \<times> int \<times> int \<times> int) list"
  out_heat_df :: "(string \<times> (string \<times> int option) list) list"
  out_pie_df :: "(string \<times> int) list"
  out_conv_df :: "(string \<times> int \<times> int \<times> rat option) list"
  out_raw :: "row list"

definition views :: "row list \<Rightarrow> params \<Rightarrow> error + page" where
  "views t p =
     (case k4 t of
        Inl e \<Rightarrow> Inl e
      | Inr leader \<Rightarrow>
          Inr \<lparr>out_k1 = k1 t, out_k2 = k2 t, out_k3 = k3 t, out_k4 = leader,
               out_bar_df = bar_df t (medal_type p) (top_n p),
               out_comp_df = comp_df t (top_n p),
               out_trend_df = (if selected_countries p \<noteq> []
                               then Some (trend_df t (selected_countries p) (medal_type p))
                               else None),
               out_s_df = s_df t,
               out_heat_df = heat_df t,
               out_pie_df = pie_df t (medal_type p),
               out_conv_df = conv_df t (top_n p),
               out_raw = raw_table t\<rparr>)"

definition dashboard :: "row list \<Rightarrow> params \<Rightarrow> error + page" where
  "dashboard df p =
     (case sidebar df of Inl e \<Rightarrow> Inl e | Inr u \<Rightarrow> views (dff df (year_range p)) p)"

text \<open>
  The same for \<^verbatim>\<open>app.py\<close>, which has no pie and no conversion chart, keeps every country
  in the scatter, leaves the heatmap rows in alphabetical order and shows the Decade
  column in its raw table.
\<close>

record page_app =
  app_total_games :: nat
  app_total_nations :: nat
  app_total_medals :: int
  app_top_country :: string
  app_top_df :: "(string \<times> int) list"
  app_comp_df :: "(string \<times> int \<times> int \<times> int) list"
  app_trend_df :: "((int \<times> string) \<times> int) list option"
  app_scatter_df :: "(string \<times> int \<times> int \<times> int \<times> int) list"
  app_heat_df :: "(string \<times> (string \<times> int) list) list"
  app_raw :: "(row \<times> string) list"

definition views_app :: "row list \<Rightarrow> params \<Rightarrow> error + page_app" where
  "views_app t p =
     (case k4 t of
        Inl e \<Rightarrow> Inl e
      | Inr leader \<Rightarrow>
          Inr \<lparr>app_total_games = k1 t, app_total_nations = k2 t, app_total_medals = k3 t,
               app_top_country = leader,
               app_top_df = bar_df t (medal_type p) (top_n p),
               app_comp_df = comp_df t (top_n p),
               app_trend_df = (if selected_countries p \<noteq> []
                               then Some (trend_df t (selected_countries p) (medal_type p))
                               else None),
               app_scatter_df = scatter_df t,
               app_heat_df = heat_df_app t,
               app_raw = map (\<lambda>r. (r, Decade r)) (raw_table t)\<rparr>)"

definition dashboard_app :: "row list \<Rightarrow> params \<Rightarrow> error + page_app" where
  "dashboard_app df p =
     (case sidebar df of Inl e \<Rightarrow> Inl e | Inr u \<Rightarrow> views_app (dff df (year_range p)) p)"

subsection \<open>The design document's three-row table\<close>

definition mk_raw :: "string \<Rightarrow> int \<Rightarrow> int \<Rightarrow> int \<Rightarrow> int \<Rightarrow> int \<Rightarrow> int \<Rightarrow> raw_row" where
  "mk_raw c y rk g s b m =
     \<lparr>Country = Some c, Year = Num y, Rank = Num rk, Golds = Num g, Silvers = Num s,
      Bronzes = Num b, Medals = Num m\<rparr>"

definition mk_row :: "string \<Rightarrow> int \<Rightarrow> int \<Rightarrow> int \<Rightarrow> int \<Rightarrow> int \<Rightarrow> int \<Rightarrow> row" where
  "mk_row c y rk g s b m =
     \<lparr>Country = Some c, Year = y, Rank = Some rk, Golds = Some g, Silvers = Some s,
      Bronzes = Some b, Medals = Some m\<rparr>"

definition example_csv :: "raw_row list" where
  "example_csv =
     [mk_raw ''USA'' 2016 1 46 37 38 121,
      mk_raw ''USA'' 2012 1 46 29 29 104,
      mk_raw ''CHN'' 2016 2 26 18 26 70]"

definition example_df :: "row list" where
  "example_df =
     [mk_row ''USA'' 2016 1 46 37 38 121,
      mk_row ''USA'' 2012 1 46 29 29 104,
      mk_row ''CHN'' 2016 2 26 18 26 70]"

text \<open>
  The sum of the Medals column of a frame of type \<open>row\<close> is \<^term>\<open>k3\<close>. For a frame whose
  cells may be text it is the sum of the cells that are numbers.
\<close>

definition raw_medals_sum :: "('c, 'y, cell) medal_row list \<Rightarrow> int" where
  "raw_medals_sum csv = skipna_sum (map (\<lambda>r. to_numeric (Medals r)) csv)"

definition is_num :: "cell \<Rightarrow> bool" where
  "is_num c = (case c of Num n \<Rightarrow> True | NaN \<Rightarrow> False | Text s \<Rightarrow> False)"

text \<open>The three rows and one more from 1896; a setting of the sidebar.\<close>

definition longer_df :: "row list" where
  "longer_df = example_df @ [mk_row ''GRE'' 1896 2 10 18 19 47]"

definition example_params :: params where
  "example_params =
     \<lparr>year_range = (2012, 2016), top_n = 5, selected_countries = [''USA''],
      medal_type = ColMedals\<rparr>"

text \<open>
  The order of a ranking of (country, value) pairs: the larger value first, and of two equal
  values the country that comes first in the grouping order, which is the order of the names.
\<close>

definition outranks :: "string \<times> int \<Rightarrow> string \<times> int \<Rightarrow> bool" where
  "outranks x y \<longleftrightarrow> snd y < snd x \<or> (snd y = snd x \<and> fst x < fst y)"

section \<open>Properties of the loaders\<close>

subsection \<open>Stripping twice\<close>

lemma lstrip_rstrip:
  assumes "dropWhile P t = t"
  shows "dropWhile P (rev (dropWhile P (rev t))) = rev (dropWhile P (rev t))"
proof (cases "rev (dropWhile P (rev t)) = []")
  case True
  then show ?thesis by (metis dropWhile.simps(1))
next
  case False
  have "\<exists>zs. t = rev (dropWhile P (rev t)) @ zs"
    by (metis rev_append rev_rev_ident takeWhile_dropWhile_id)
  then obtain zs where t: "t = rev (dropWhile P (rev t)) @ zs" by blast
  have "hd (rev (dropWhile P (rev t))) = hd t"
    using False t by (metis hd_append2)
  moreover have "t \<noteq> []" using False by auto
  moreover have "\<not> P (hd t)" using assms \<open>t \<noteq> []\<close> by (simp add: dropWhile_eq_self_iff)
  ultimately show ?thesis by (simp add: dropWhile_eq_self_iff)
qed

lemma str_strip_idem: "str_strip (str_strip s) = str_strip s"
proof -
  let ?t = "dropWhile isspace s"
  have a: "dropWhile isspace (rev (dropWhile isspace (rev ?t))) = rev (dropWhile isspace (rev ?t))"
    by (rule lstrip_rstrip) simp
  show ?thesis
    unfolding str_strip_def by (simp add: a)
qed

subsection \<open>The integer cast\<close>

lemma astype_int_cols:
  "astype_int df = Inr rs \<Longrightarrow>
     map Country rs = map Country df \<and> map Medals rs = map Medals df \<and>
     map (\<lambda>r. Some (Year r)) rs = map Year df"
  by (induction df arbitrary: rs) (auto split: option.splits sum.splits)

lemma astype_int_total:
  "list_all (\<lambda>r. Year r \<noteq> None) df \<Longrightarrow> \<exists>rs. astype_int df = Inr rs"
  by (induction df) (auto split: option.splits sum.splits)

subsection \<open>\<^verbatim>\<open>load_data\<close> of \<^verbatim>\<open>app (1).py\<close> always returns, and returns a clean frame\<close>

lemma load_data_total: "\<exists>df. load_data csv = Inr df"
  unfolding load_data_def Let_def
  by (rule astype_int_total) (simp add: list_all_iff)

lemma load_data_country:
  assumes "load_data csv = Inr df" and "r \<in> set df"
  shows "\<exists>c. Country r = Some c \<and> str_strip c = c \<and> str_lower c \<notin> set placeholders"
proof -
  define df4 where "df4 = filter (\<lambda>r. \<not> is_placeholder (Country r))
      (map (\<lambda>r. r\<lparr>Country := map_option str_strip (Country r)\<rparr>)
        (filter (\<lambda>r. Country r \<noteq> None)
          (map (\<lambda>r. \<lparr>Country = Country r, Year = to_numeric (Year r),
                           Rank = to_numeric (Rank r), Golds = to_numeric (Golds r),
                           Silvers = to_numeric (Silvers r), Bronzes = to_numeric (Bronzes r),
                           Medals = to_numeric (Medals r)\<rparr>) csv)))"
  have ld: "astype_int (filter (\<lambda>r. Year r \<noteq> None \<and> Medals r \<noteq> None) df4) = Inr df"
    using assms(1) unfolding load_data_def Let_def df4_def .
  have "Country r \<in> set (map Country df)" using assms(2) by simp
  then have "Country r \<in> set (map Country (filter (\<lambda>r. Year r \<noteq> None \<and> Medals r \<noteq> None) df4))"
    using astype_int_cols [OF ld] by simp
  then obtain r' where r': "r' \<in> set df4" "Country r' = Country r" by auto
  from r'(1) obtain c0 where "Country r' = Some (str_strip c0)" "\<not> is_placeholder (Country r')"
    unfolding df4_def by auto
  then show ?thesis
    using r'(2) by (auto simp: is_placeholder_def str_strip_idem)
qed

text \<open>
  Claim C1. No row of a loaded table has a Country that, trimmed and lower-cased, is one of
  "nan", "none", "" and "n/a", in both scripts. \<^verbatim>\<open>load_data\<close> of \<^verbatim>\<open>app (1).py\<close> ensures it
  (\<open>load_data_country\<close> above). \<^verbatim>\<open>load_data\<close> of \<^verbatim>\<open>app.py\<close> does not clean: a CSV line
  \<^verbatim>\<open>none,2016,3,1,0,0,1\<close> (lower-case "none" is not among the strings that \<^verbatim>\<open>read_csv\<close>
  reads as NaN) comes back as it went in, while \<^verbatim>\<open>app (1).py\<close> drops it.
\<close>

theorem load_data_app_keeps_placeholder:
  "load_data_app [mk_raw ''none'' 2016 3 1 0 0 1] =
     Inr [\<lparr>Country = Some ''none'', Year = 2016, Rank = Num 3, Golds = Num 1,
           Silvers = Num 0, Bronzes = Num 0, Medals = Num 1\<rparr>]
   \<and> str_lower (str_strip ''none'') \<in> set placeholders
   \<and> load_data [mk_raw ''none'' 2016 3 1 0 0 1] = Inr []"
  by code_simp

subsection \<open>Cleaning and the medal total\<close>

lemma skipna_sum_filter_le:
  assumes "\<And>x n. x \<in> set xs \<Longrightarrow> f x = Some n \<Longrightarrow> 0 \<le> n"
  shows "skipna_sum (map f (filter P xs)) \<le> skipna_sum (map f xs)"
  using assms
proof (induction xs)
  case Nil
  then show ?case by (simp add: skipna_sum_def)
next
  case (Cons x xs)
  have ih: "skipna_sum (map f (filter P xs)) \<le> skipna_sum (map f xs)"
    by (rule Cons.IH) (rule Cons.prems, simp_all)
  have "0 \<le> (case f x of None \<Rightarrow> 0 | Some n \<Rightarrow> n)"
    using Cons.prems [of x] by (cases "f x") auto
  then show ?case using ih by (simp add: skipna_sum_def)
qed

lemma load_data_medals_le:
  assumes nonneg: "\<And>r n. r \<in> set csv \<Longrightarrow> Medals r = Num n \<Longrightarrow> 0 \<le> n"
    and ld: "load_data csv = Inr df"
  shows "k3 df \<le> raw_medals_sum csv"
proof -
  define df1 where "df1 = map (\<lambda>r. \<lparr>Country = Country r, Year = to_numeric (Year r),
                           Rank = to_numeric (Rank r), Golds = to_numeric (Golds r),
                           Silvers = to_numeric (Silvers r), Bronzes = to_numeric (Bronzes r),
                           Medals = to_numeric (Medals r)\<rparr>) csv"
  define df3 where "df3 = map (\<lambda>r. r\<lparr>Country := map_option str_strip (Country r)\<rparr>)
                            (filter (\<lambda>r. Country r \<noteq> None) df1)"
  define df5 where "df5 = filter (\<lambda>r. Year r \<noteq> None \<and> Medals r \<noteq> None)
                            (filter (\<lambda>r. \<not> is_placeholder (Country r)) df3)"
  have a: "astype_int df5 = Inr df"
    using ld unfolding load_data_def Let_def df5_def df3_def df1_def .
  have nn1: "0 \<le> n" if "x \<in> set df1" "Medals x = Some n" for x n
    using that nonneg unfolding df1_def
    by (auto simp: to_numeric_def split: cell.splits)
  have m3: "map Medals df3 = map Medals (filter (\<lambda>r. Country r \<noteq> None) df1)"
    unfolding df3_def by simp
  have nn3: "0 \<le> n" if "x \<in> set df3" "Medals x = Some n" for x n
    using that nn1 unfolding df3_def by auto
  have "k3 df = skipna_sum (map Medals df5)"
    using astype_int_cols [OF a] by (simp add: k3_def)
  also have "\<dots> \<le> skipna_sum (map Medals df3)"
    unfolding df5_def filter_filter by (rule skipna_sum_filter_le) (rule nn3)
  also have "\<dots> = skipna_sum (map Medals (filter (\<lambda>r. Country r \<noteq> None) df1))"
    by (simp only: m3)
  also have "\<dots> \<le> skipna_sum (map Medals df1)"
    by (rule skipna_sum_filter_le) (rule nn1)
  also have "\<dots> = raw_medals_sum csv"
    unfolding df1_def raw_medals_sum_def by (simp add: comp_def)
  finally show ?thesis .
qed

lemma astype_int_raw_Inr:
  "astype_int_raw csv = Inr df \<Longrightarrow>
     map Medals df = map Medals csv \<and> map Country df = map Country csv
     \<and> list_all (\<lambda>r. is_num (Year r)) csv"
  by (induction csv arbitrary: df) (auto simp: is_num_def split: cell.splits sum.splits)

lemma astype_int_raw_Inl:
  "astype_int_raw csv = Inl e \<Longrightarrow> e = ValueError \<and> \<not> list_all (\<lambda>r. is_num (Year r)) csv"
  by (induction csv) (auto simp: is_num_def split: cell.splits sum.splits)

text \<open>
  Claim C8. For every raw table with no negative medal count (the data model's constraint on
  Medals; cells that are empty or text are allowed), \<^verbatim>\<open>load_data\<close> of \<^verbatim>\<open>app (1).py\<close>
  returns a table, and the sum of its Medals column is at most the sum of the numbers in
  the raw Medals column: cleaning only removes rows. \<^verbatim>\<open>load_data\<close> of \<^verbatim>\<open>app.py\<close> either
  raises a \<^verbatim>\<open>ValueError\<close>, when some Year is not a number, or returns the table with its
  Medals column as it was read, so with the same sum.
\<close>

theorem load_data_medals_sum:
  assumes "\<forall>r \<in> set csv. \<forall>n. Medals r = Num n \<longrightarrow> 0 \<le> n"
  shows "(case load_data csv of Inl e \<Rightarrow> False | Inr df \<Rightarrow> k3 df \<le> raw_medals_sum csv)
       \<and> (case load_data_app csv of
            Inl e \<Rightarrow> e = ValueError \<and> \<not> list_all (\<lambda>r. is_num (Year r)) csv
          | Inr df \<Rightarrow> map Medals df = map Medals csv
                      \<and> raw_medals_sum df = raw_medals_sum csv)"
proof
  obtain df where df: "load_data csv = Inr df"
    using load_data_total by blast
  have "k3 df \<le> raw_medals_sum csv"
    using assms by (intro load_data_medals_le [OF _ df]) blast
  then show "case load_data csv of Inl e \<Rightarrow> False | Inr df \<Rightarrow> k3 df \<le> raw_medals_sum csv"
    by (simp add: df)
  show "case load_data_app csv of
            Inl e \<Rightarrow> e = ValueError \<and> \<not> list_all (\<lambda>r. is_num (Year r)) csv
          | Inr df \<Rightarrow> map Medals df = map Medals csv
                      \<and> raw_medals_sum df = raw_medals_sum csv"
  proof (cases "load_data_app csv")
    case (Inl e)
    then show ?thesis
      using astype_int_raw_Inl [of csv e] by (simp add: load_data_app_def)
  next
    case (Inr df')
    then have m: "map Medals df' = map Medals csv"
      using astype_int_raw_Inr [of csv df'] by (simp add: load_data_app_def)
    have "map (\<lambda>r. to_numeric (Medals r)) df' = map to_numeric (map Medals df')"
      by simp
    also have "\<dots> = map (\<lambda>r. to_numeric (Medals r)) csv"
      unfolding m by simp
    finally have "raw_medals_sum df' = raw_medals_sum csv"
      by (simp only: raw_medals_sum_def)
    then show ?thesis using Inr m by simp
  qed
qed

theorem load_data_medals_sum_witness:
  "(case load_data example_csv of Inl e \<Rightarrow> False | Inr df \<Rightarrow> k3 df \<le> raw_medals_sum example_csv)
   \<and> (case load_data_app example_csv of
        Inl e \<Rightarrow> e = ValueError \<and> \<not> list_all (\<lambda>r. is_num (Year r)) example_csv
      | Inr df \<Rightarrow> map Medals df = map Medals example_csv
                  \<and> raw_medals_sum df = raw_medals_sum example_csv)"
  using load_data_medals_sum [of example_csv]
  by (simp add: example_csv_def mk_raw_def)

section \<open>Properties of the filter and the views\<close>

subsection \<open>The year filter\<close>

lemma dff_filter: "dff df (lo, hi) = filter (\<lambda>r. lo \<le> Year r \<and> Year r \<le> hi) df"
proof -
  have "map fst (filter snd (zip xs (map P xs))) = filter P xs" for P :: "row \<Rightarrow> bool" and xs
    by (induction xs) auto
  then show ?thesis by (simp add: dff_def Let_def conj_commute)
qed

text \<open>
  Claim C6. The filter returns exactly the rows of the table whose Year lies between the
  two bounds, both included, in their order; and both scripts compute everything they show
  from the filtered table: two loaded tables that pass the sidebar alike and have the same
  filtered rows give the same page.
\<close>

theorem dff_year_range:
  "dff df (lo, hi) = filter (\<lambda>r. lo \<le> Year r \<and> Year r \<le> hi) df
   \<and> (sidebar df = sidebar df' \<and> dff df (year_range p) = dff df' (year_range p)
        \<longrightarrow> dashboard df p = dashboard df' p \<and> dashboard_app df p = dashboard_app df' p)"
proof (intro conjI impI)
  show "dff df (lo, hi) = filter (\<lambda>r. lo \<le> Year r \<and> Year r \<le> hi) df"
    by (rule dff_filter)
next
  assume a: "sidebar df = sidebar df' \<and> dff df (year_range p) = dff df' (year_range p)"
  then have s: "sidebar df = sidebar df'"
    and d: "dff df (year_range p) = dff df' (year_range p)"
    by simp_all
  show "dashboard df p = dashboard df' p"
    unfolding dashboard_def s d by (rule refl)
  show "dashboard_app df p = dashboard_app df' p"
    unfolding dashboard_app_def s d by (rule refl)
qed

theorem dff_year_range_witness:
  "dff example_df (2012, 2012) = filter (\<lambda>r. 2012 \<le> Year r \<and> Year r \<le> 2012) example_df
   \<and> dashboard example_df example_params = dashboard longer_df example_params
   \<and> dashboard_app example_df example_params = dashboard_app longer_df example_params"
proof -
  have "sidebar example_df = sidebar longer_df"
    by code_simp
  moreover have "dff example_df (year_range example_params) = dff longer_df (year_range example_params)"
    by code_simp
  ultimately show ?thesis
    using dff_year_range [of example_df 2012 2012 longer_df example_params] by simp
qed

subsection \<open>The trend view without a spotlight country\<close>

text \<open>
  Claim C7. With no spotlight country the trend expression yields the empty frame, for
  every table and every medal type. (The scripts do not even evaluate it then: they show a
  hint instead.) \<^term>\<open>trend_df\<close> has no error result, so it cannot raise.
\<close>

theorem trend_df_no_countries: "trend_df t [] mt = []"
  by (simp add: trend_df_def isin_def groupby_def List.map_filter_def split: option.splits)

theorem trend_df_no_countries_witness: "trend_df example_df [] ColGolds = []"
  using trend_df_no_countries [of example_df ColGolds] .

subsection \<open>Groups\<close>

lemma map_filter_set: "k \<in> set (List.map_filter key t) \<longleftrightarrow> (\<exists>r \<in> set t. key r = Some k)"
  by (force simp: List.map_filter_def image_iff)

lemma groupby_keys: "map fst (groupby key t) = sort (remdups (List.map_filter key t))"
  by (simp add: groupby_def comp_def)

lemma groupby_set:
  "(k, g) \<in> set (groupby key t) \<longleftrightarrow>
     (\<exists>r \<in> set t. key r = Some k) \<and> g = filter (\<lambda>r. key r = Some k) t"
proof -
  have "(k, g) \<in> set (groupby key t) \<longleftrightarrow>
          k \<in> set (List.map_filter key t) \<and> g = filter (\<lambda>r. key r = Some k) t"
    unfolding groupby_def by auto
  then show ?thesis by (simp only: map_filter_set)
qed

lemma sum_by_country_keys:
  "map fst (sum_by_country col t) = sort (remdups (List.map_filter Country t))"
  by (simp add: sum_by_country_def groupby_def comp_def)

lemma sum_by_country_set:
  "(c, v) \<in> set (sum_by_country col t) \<longleftrightarrow>
     (\<exists>r \<in> set t. Country r = Some c)
     \<and> v = skipna_sum (map col (filter (\<lambda>r. Country r = Some c) t))"
proof -
  have "(c, v) \<in> set (sum_by_country col t) \<longleftrightarrow>
          (\<exists>g. (c, g) \<in> set (groupby Country t) \<and> v = skipna_sum (map col g))"
    unfolding sum_by_country_def by (simp add: image_iff) force
  then show ?thesis unfolding groupby_set by auto
qed

lemma conv_kept_set:
  "(c, g, m) \<in> set (conv_kept t) \<longleftrightarrow>
     (\<exists>r \<in> set t. Country r = Some c)
     \<and> g = skipna_sum (map Golds (filter (\<lambda>r. Country r = Some c) t))
     \<and> m = skipna_sum (map Medals (filter (\<lambda>r. Country r = Some c) t))
     \<and> 20 \<le> m"
proof -
  have "(c, g, m) \<in> set (conv_kept t) \<longleftrightarrow>
          (\<exists>grp. (c, grp) \<in> set (groupby Country t) \<and> g = skipna_sum (map Golds grp)
                  \<and> m = skipna_sum (map Medals grp)) \<and> 20 \<le> m"
    unfolding conv_kept_def by (simp add: image_iff) force
  then show ?thesis unfolding groupby_set by auto
qed

subsection \<open>The denominator of the conversion rate\<close>

text \<open>
  Claim C9. Every country that the threshold filter of the gold conversion view keeps has a
  Medals sum of at least 20, which is not zero: its percentage is a number, and the branch
  of \<^term>\<open>gold_pct\<close> for a zero denominator is not taken.
\<close>

theorem conv_kept_denominator:
  assumes "(c, g, m) \<in> set (conv_kept t)"
  shows "m = skipna_sum (map Medals (filter (\<lambda>r. Country r = Some c) t))
         \<and> 20 \<le> m \<and> m \<noteq> 0
         \<and> gold_pct g m = Some (np_round1 (fmul (fdiv (to_float g) (to_float m)) 100))"
  using assms by (auto simp: conv_kept_set gold_pct_def)

theorem conv_kept_denominator_witness:
  "(225::int) = skipna_sum (map Medals (filter (\<lambda>r. Country r = Some ''USA'') example_df))
   \<and> (20::int) \<le> 225 \<and> (225::int) \<noteq> 0
   \<and> gold_pct 92 225 = Some (np_round1 (fmul (fdiv (to_float 92) (to_float 225)) 100))"
proof -
  have "(''USA'', 92, 225) \<in> set (conv_kept example_df)"
    by code_simp
  then show ?thesis
    by (rule conv_kept_denominator)
qed

subsection \<open>The KPI cards on a non-empty selection\<close>

lemma idxmax_nonempty: "s \<noteq> [] \<Longrightarrow> \<exists>c. idxmax s = Inr c"
  by (cases s) (simp_all add: idxmax_def)

lemma k4_defined:
  assumes "r \<in> set t" "Country r \<noteq> None"
  shows "\<exists>c. k4 t = Inr c"
proof -
  have "the (Country r) \<in> set (List.map_filter Country t)"
    using assms by (auto simp: map_filter_set)
  then have "map fst (sum_by_country Medals t) \<noteq> []"
    unfolding sum_by_country_keys by (metis empty_iff empty_set set_remdups set_sort)
  then show ?thesis unfolding k4_def by (intro idxmax_nonempty) auto
qed

lemma load_data_no_nan_country:
  "load_data csv = Inr df \<Longrightarrow> r \<in> set df \<Longrightarrow> Country r \<noteq> None"
  using load_data_country by fastforce

text \<open>
  Claim C10. On a table without a NaN country (the canonical table; \<open>load_data_no_nan_country\<close>
  shows that \<^verbatim>\<open>load_data\<close> of \<^verbatim>\<open>app (1).py\<close> returns one), for two years \<open>a \<le> b\<close> that both
  occur in the Year column, the filtered table is not empty, the all-time leader
  (\<^verbatim>\<open>idxmax\<close> of the Medals sums) is defined, and both scripts run through to a page. The
  other three cards are total functions.
\<close>

theorem kpi_defined:
  assumes "\<forall>r \<in> set df. Country r \<noteq> None"
    and "a \<in> Year ` set df" and "b \<in> Year ` set df" and "a \<le> b"
  shows "dff df (a, b) \<noteq> []
       \<and> (\<exists>c. k4 (dff df (a, b)) = Inr c)
       \<and> (\<exists>v. dashboard df (p\<lparr>year_range := (a, b)\<rparr>) = Inr v)
       \<and> (\<exists>v. dashboard_app df (p\<lparr>year_range := (a, b)\<rparr>) = Inr v)"
proof -
  obtain r where r: "r \<in> set df" "Year r = a"
    using assms(2) by auto
  have rin: "r \<in> set (dff df (a, b))"
    using r assms(4) by (simp add: dff_filter)
  have c: "Country r \<noteq> None"
    using assms(1) r(1) by blast
  obtain leader where k: "k4 (dff df (a, b)) = Inr leader"
    using k4_defined [OF rin c] by blast
  have "df \<noteq> []" using r(1) by auto
  moreover have "\<not> list_ex (\<lambda>r. Country r = None) df"
    using assms(1) by (simp add: list_ex_iff)
  ultimately have s: "sidebar df = Inr ()"
    by (simp add: sidebar_def)
  have "dff df (a, b) \<noteq> []"
    using rin by auto
  moreover have "\<exists>v. dashboard df (p\<lparr>year_range := (a, b)\<rparr>) = Inr v"
    by (simp add: dashboard_def s views_def k)
  moreover have "\<exists>v. dashboard_app df (p\<lparr>year_range := (a, b)\<rparr>) = Inr v"
    by (simp add: dashboard_app_def s views_app_def k)
  ultimately show ?thesis using k by blast
qed

theorem kpi_defined_witness:
  "dff example_df (2012, 2016) \<noteq> []
       \<and> (\<exists>c. k4 (dff example_df (2012, 2016)) = Inr c)
       \<and> (\<exists>v. dashboard example_df (example_params\<lparr>year_range := (2012, 2016)\<rparr>) = Inr v)
       \<and> (\<exists>v. dashboard_app example_df (example_params\<lparr>year_range := (2012, 2016)\<rparr>) = Inr v)"
proof -
  have "\<forall>r \<in> set example_df. Country r \<noteq> None"
    by (simp add: example_df_def mk_row_def)
  moreover have "2012 \<in> Year ` set example_df" "2016 \<in> Year ` set example_df"
    by (simp_all add: example_df_def mk_row_def)
  ultimately show ?thesis
    using kpi_defined [of example_df 2012 2016 example_params] by simp
qed

subsection \<open>A stable sort of a list that is already ordered by a second key\<close>

lemma insort_key_lex:
  fixes f :: "'a \<Rightarrow> 'k::linorder" and g :: "'a \<Rightarrow> 'g::order"
  assumes "sorted_wrt (\<lambda>a b. f a < f b \<or> (f a = f b \<and> g a < g b)) ys"
    and "\<forall>y \<in> set ys. g x < g y"
  shows "sorted_wrt (\<lambda>a b. f a < f b \<or> (f a = f b \<and> g a < g b)) (insort_key f x ys)"
  using assms
proof (induction ys)
  case Nil
  then show ?case by simp
next
  case (Cons y ys)
  show ?case
  proof (cases "f x \<le> f y")
    case True
    have "f x < f z \<or> (f x = f z \<and> g x < g z)" if "z \<in> set (y # ys)" for z
    proof -
      have "f y \<le> f z" using that Cons.prems(1) by auto
      then have "f x \<le> f z" using True by simp
      moreover have "g x < g z" using that Cons.prems(2) by auto
      ultimately show ?thesis by (auto simp: le_less)
    qed
    then show ?thesis using True Cons.prems(1) by simp
  next
    case False
    have "sorted_wrt (\<lambda>a b. f a < f b \<or> (f a = f b \<and> g a < g b)) (insort_key f x ys)"
      using Cons by simp
    moreover have "f y < f z \<or> (f y = f z \<and> g y < g z)" if "z \<in> set (insort_key f x ys)" for z
      using that False Cons.prems(1) by (auto simp: set_insort_key)
    ultimately show ?thesis using False by simp
  qed
qed

lemma sort_key_lex:
  fixes f :: "'a \<Rightarrow> 'k::linorder" and g :: "'a \<Rightarrow> 'g::order"
  assumes "sorted_wrt (\<lambda>a b. g a < g b) xs"
  shows "sorted_wrt (\<lambda>a b. f a < f b \<or> (f a = f b \<and> g a < g b)) (sort_key f xs)"
  using assms
proof (induction xs)
  case Nil
  then show ?case by simp
next
  case (Cons x xs)
  then show ?case by (simp add: insort_key_lex)
qed

lemma sorted_wrt_take_drop:
  assumes "sorted_wrt R xs" and "x \<in> set (take n xs)" and "y \<in> set (drop n xs)"
  shows "R x y"
proof -
  have "sorted_wrt R (take n xs @ drop n xs)" using assms(1) by simp
  then show ?thesis using assms(2,3) unfolding sorted_wrt_append by blast
qed

lemma set_minus_take:
  assumes "y \<in> set xs" and "y \<notin> set (take n xs)"
  shows "y \<in> set (drop n xs)"
proof -
  have "set xs = set (take n xs) \<union> set (drop n xs)"
    by (metis append_take_drop_id set_append)
  then show ?thesis using assms by blast
qed

subsection \<open>The ranking\<close>

lemma sum_by_country_sorted: "sorted_wrt (\<lambda>a b. fst a < fst b) (sum_by_country col t)"
proof -
  have "sorted_wrt (<) (map fst (sum_by_country col t))"
    unfolding sum_by_country_keys strict_sorted_iff by simp
  then show ?thesis by (simp add: sorted_wrt_map)
qed

lemma sum_by_country_length: "length (sum_by_country col t) = k2 t"
  using arg_cong [OF sum_by_country_keys, of length col t] by (simp add: k2_def)

lemma ranking_sorted:
  "sorted_wrt outranks (sort_key (\<lambda>p. - snd p) (sum_by_country col t))"
proof -
  have "sorted_wrt (\<lambda>a b. - snd a < - snd b \<or> (- snd a = - snd b \<and> fst a < fst b))
          (sort_key (\<lambda>p. - snd p) (sum_by_country col t))"
    by (rule sort_key_lex) (rule sum_by_country_sorted)
  then show ?thesis
    by (rule sorted_wrt_mono_rel [rotated]) (auto simp: outranks_def)
qed

lemma nlargest_sorted: "sorted_wrt outranks (nlargest n (sum_by_country col t))"
  unfolding nlargest_def using ranking_sorted [of col t]
  by (auto intro: sorted_wrt_take)

lemma nlargest_outranks:
  assumes "x \<in> set (nlargest n (sum_by_country col t))"
    and "y \<in> set (sum_by_country col t)" and "y \<notin> set (nlargest n (sum_by_country col t))"
  shows "outranks x y"
proof -
  let ?S = "sort_key (\<lambda>p. - snd p) (sum_by_country col t)"
  have n: "0 < n" using assms(1) by (auto simp: nlargest_def split: if_splits)
  then have eq: "nlargest n (sum_by_country col t) = take (nat n) ?S"
    by (simp add: nlargest_def)
  have "y \<in> set ?S" using assms(2) by simp
  then have "y \<in> set (drop (nat n) ?S)"
    using assms(3) unfolding eq by (rule set_minus_take)
  moreover have "x \<in> set (take (nat n) ?S)" using assms(1) unfolding eq .
  ultimately show ?thesis
    using sorted_wrt_take_drop [OF ranking_sorted] by blast
qed

lemma nlargest_length: "length (nlargest n s) = min (nat n) (length s)"
  by (simp add: nlargest_def min.commute)

lemma nlargest_subset: "set (nlargest n s) \<subseteq> set s"
  by (auto simp: nlargest_def dest: in_set_takeD)

lemma bar_df_set: "set (bar_df t mt n) = set (nlargest n (sum_by_country (column mt) t))"
  by (simp add: bar_df_def)

text \<open>
  Claim C4. For a positive \<open>n\<close>, the frame of the top-\<open>n\<close> bar chart (for Medals as for any
  other medal type) has \<open>min n (number of distinct countries)\<close> rows; read from its last row
  to its first, the viewing order of the chart, its values never increase; each row is a
  country with its sum; and a country that is left out is outranked by every country that
  is in: it has a smaller sum, or the same sum and a later place in the grouping order. The
  ranking before the final sort is ordered in the same way, so a given table has one result.
\<close>

theorem bar_df_ranking:
  assumes "0 < n"
  shows "length (bar_df t mt n) = min (nat n) (k2 t)
       \<and> sorted_wrt (\<ge>) (map snd (rev (bar_df t mt n)))
       \<and> (\<forall>x \<in> set (bar_df t mt n).
            x \<in> set (sum_by_country (column mt) t)
            \<and> snd x = skipna_sum (map (column mt) (filter (\<lambda>r. Country r = Some (fst x)) t)))
       \<and> (\<forall>x \<in> set (bar_df t mt n).
            \<forall>y \<in> set (sum_by_country (column mt) t) - set (bar_df t mt n). outranks x y)
       \<and> sorted_wrt outranks (nlargest n (sum_by_country (column mt) t))"
proof (intro conjI ballI)
  show "length (bar_df t mt n) = min (nat n) (k2 t)"
    by (simp add: bar_df_def nlargest_length sum_by_country_length)
  have "sorted (map snd (bar_df t mt n))"
    unfolding bar_df_def by (rule sorted_sort_key)
  then show "sorted_wrt (\<ge>) (map snd (rev (bar_df t mt n)))"
    by (simp add: rev_map [symmetric] sorted_wrt_rev)
  show "sorted_wrt outranks (nlargest n (sum_by_country (column mt) t))"
    by (rule nlargest_sorted)
next
  fix x assume "x \<in> set (bar_df t mt n)"
  then show "x \<in> set (sum_by_country (column mt) t)"
    unfolding bar_df_set using nlargest_subset by blast
  then show "snd x = skipna_sum (map (column mt) (filter (\<lambda>r. Country r = Some (fst x)) t))"
    using sum_by_country_set [of "fst x" "snd x"] by simp
next
  fix x y
  assume "x \<in> set (bar_df t mt n)"
    and "y \<in> set (sum_by_country (column mt) t) - set (bar_df t mt n)"
  then show "outranks x y"
    unfolding bar_df_set by (intro nlargest_outranks) auto
qed

theorem bar_df_ranking_witness:
  "length (bar_df example_df ColMedals 1) = min (nat 1) (k2 example_df)
   \<and> sorted_wrt (\<ge>) (map snd (rev (bar_df example_df ColMedals 1)))
   \<and> bar_df example_df ColMedals 1 = [(''USA'', 225)]
   \<and> outranks (''USA'', 225) (''CHN'', 70)"
proof -
  have b: "bar_df example_df ColMedals 1 = [(''USA'', 225)]"
    by code_simp
  have s: "(''CHN'', 70) \<in> set (sum_by_country (column ColMedals) example_df)"
    by code_simp
  have "(0::int) < 1" by simp
  from bar_df_ranking [OF this, of example_df ColMedals] b s show ?thesis
    by simp
qed

subsection \<open>The conversion rate\<close>

lemma conv_kept_distinct: "distinct (map fst (conv_kept t))"
proof -
  let ?h = "\<lambda>(c, grp). (c, skipna_sum (map Golds grp), skipna_sum (map Medals grp))"
  have "map fst (map ?h (groupby Country t)) = map fst (groupby Country t)"
    by (simp add: comp_def case_prod_unfold)
  then have "distinct (map fst (map ?h (groupby Country t)))"
    by (simp only: groupby_keys) simp
  then show ?thesis
    unfolding conv_kept_def by (rule distinct_map_filter)
qed

lemma conv_df_set:
  "set (conv_df t n) =
     (if n \<le> 0 then {}
      else set (take (nat n) (sort_key (\<lambda>(c, g, m, p). desc_key p)
                  (map (\<lambda>(c, g, m). (c, g, m, gold_pct g m)) (conv_kept t)))))"
  by (simp add: conv_df_def Let_def)

lemma conv_df_length: "length (conv_df t n) = min (nat n) (length (conv_kept t))"
  by (simp add: conv_df_def Let_def min.commute)

lemma conv_df_row:
  assumes "(c, g, m, p) \<in> set (conv_df t n)"
  shows "(c, g, m) \<in> set (conv_kept t) \<and> p = gold_pct g m"
proof -
  have "(c, g, m, p) \<in> set (map (\<lambda>(c, g, m). (c, g, m, gold_pct g m)) (conv_kept t))"
    using assms unfolding conv_df_set by (auto split: if_splits dest: in_set_takeD)
  then show ?thesis by auto
qed

lemma gold_pct_kept:
  assumes "(c, g, m) \<in> set (conv_kept t)"
  shows "gold_pct g m = Some (np_round1 (fmul (fdiv (to_float g) (to_float m)) 100))"
proof -
  have "m \<noteq> 0" using assms by (auto simp: conv_kept_set)
  then show ?thesis by (simp only: gold_pct_def if_False)
qed

lemma conv_df_largest:
  assumes x: "(c, g, m, p) \<in> set (conv_df t n)"
    and y: "(c', g', m') \<in> set (conv_kept t)"
    and out: "(c', g', m', gold_pct g' m') \<notin> set (conv_df t n)"
  shows "\<exists>q q'. p = Some q \<and> gold_pct g' m' = Some q' \<and> q' \<le> q"
proof -
  let ?conv = "map (\<lambda>(c, g, m). (c, g, m, gold_pct g m)) (conv_kept t)"
  let ?k = "\<lambda>(c :: string, g :: int, m :: int, p). desc_key p"
  let ?S = "sort_key ?k ?conv"
  have n: "0 < n" using x unfolding conv_df_set by (auto split: if_splits)
  then have eq: "set (conv_df t n) = set (take (nat n) ?S)"
    unfolding conv_df_set by simp
  have "(c', g', m', gold_pct g' m') \<in> set ?S" using y by force
  then have d: "(c', g', m', gold_pct g' m') \<in> set (drop (nat n) ?S)"
    using out unfolding eq by (rule set_minus_take)
  have "sorted (map ?k ?S)" by (rule sorted_sort_key)
  then have "sorted_wrt (\<lambda>a b. ?k a \<le> ?k b) ?S" by (simp add: sorted_map)
  from sorted_wrt_take_drop [OF this _ d, of "(c, g, m, p)"] x
  have le: "desc_key p \<le> desc_key (gold_pct g' m')"
    unfolding eq by simp
  obtain q where q: "p = Some q"
    using conv_df_row [OF x] gold_pct_kept by blast
  obtain q' where q': "gold_pct g' m' = Some q'"
    using gold_pct_kept [OF y] by blast
  have "q' \<le> q" using le unfolding q q' by (simp add: desc_key_def)
  then show ?thesis using q q' by blast
qed

text \<open>
  Claim C3, as stated: the percentage of a country is \<open>100 * golds / medals\<close> rounded to one
  decimal. For a country with 23 golds of 80 medals that is 28.75 rounded, 28.8, and the
  claim's own order of operations gives the float64 28.8 as well. The script divides first:
  23 / 80 * 100 is 28.749999999999996 in float64, and its frame shows 28.7.
\<close>

theorem conv_df_rate_counterexample:
  "conv_df [mk_row ''AAA'' 2016 1 23 27 30 80] 1 = [(''AAA'', 23, 80, Some (float64 (287 / 10)))]
   \<and> spec_percent 23 80 = 288 / 10
   \<and> np_round1 (fdiv (fmul 100 (to_float 23)) (to_float 80)) = float64 (288 / 10)
   \<and> float64 (287 / 10) < 288 / 10 - 9 / 100"
  by code_simp

text \<open>
  Claim C3, amended. Every row of the gold conversion frame is a country with its Golds sum
  and its Medals sum over the filtered table, the Medals sum is 20 or more, and its
  percentage is the float64 value of \<^verbatim>\<open>(Golds / Medals * 100).round(1)\<close>, computed in that
  order. The frame has \<open>min n k\<close> rows, where \<open>k\<close> is the number of countries with 20 medals
  or more (each once), and no country left out has a larger percentage than a country in
  the frame. On the three-row table the frame is CHN 37.1, USA 40.9 (the script sorts it
  ascending for the bars), and for \<open>n = 1\<close> it is USA.
\<close>

theorem conv_df_rate:
  "(\<forall>x \<in> set (conv_df t n). case x of (c, g, m, p) \<Rightarrow>
       g = skipna_sum (map Golds (filter (\<lambda>r. Country r = Some c) t))
       \<and> m = skipna_sum (map Medals (filter (\<lambda>r. Country r = Some c) t))
       \<and> 20 \<le> m
       \<and> p = Some (np_round1 (fmul (fdiv (to_float g) (to_float m)) 100)))
   \<and> length (conv_df t n) = min (nat n) (length (conv_kept t))
   \<and> distinct (map fst (conv_kept t))
   \<and> (\<forall>x \<in> set (conv_df t n). \<forall>y \<in> set (conv_kept t). case (x, y) of ((c, g, m, p), (c', g', m')) \<Rightarrow>
        (c', g', m', gold_pct g' m') \<notin> set (conv_df t n)
        \<longrightarrow> (\<exists>q q'. p = Some q \<and> gold_pct g' m' = Some q' \<and> q' \<le> q))
   \<and> conv_df example_df 5 =
        [(''CHN'', 26, 70, Some (float64 (371 / 10))), (''USA'', 92, 225, Some (float64 (409 / 10)))]
   \<and> conv_df example_df 1 = [(''USA'', 92, 225, Some (float64 (409 / 10)))]"
proof (intro conjI ballI)
  fix x assume x: "x \<in> set (conv_df t n)"
  obtain c g m p where xe: "x = (c, g, m, p)" by (metis prod_cases4)
  have k: "(c, g, m) \<in> set (conv_kept t)" and p: "p = gold_pct g m"
    using conv_df_row x unfolding xe by blast+
  show "case x of (c, g, m, p) \<Rightarrow>
       g = skipna_sum (map Golds (filter (\<lambda>r. Country r = Some c) t))
       \<and> m = skipna_sum (map Medals (filter (\<lambda>r. Country r = Some c) t))
       \<and> 20 \<le> m
       \<and> p = Some (np_round1 (fmul (fdiv (to_float g) (to_float m)) 100))"
    using k gold_pct_kept [OF k] unfolding xe p by (simp add: conv_kept_set)
  fix y assume y: "y \<in> set (conv_kept t)"
  obtain c' g' m' where ye: "y = (c', g', m')" by (metis prod_cases3)
  show "case (x, y) of ((c, g, m, p), (c', g', m')) \<Rightarrow>
        (c', g', m', gold_pct g' m') \<notin> set (conv_df t n)
        \<longrightarrow> (\<exists>q q'. p = Some q \<and> gold_pct g' m' = Some q' \<and> q' \<le> q)"
    using conv_df_largest [of c g m p t n c' g' m'] x y unfolding xe ye by simp
next
  show "length (conv_df t n) = min (nat n) (length (conv_kept t))"
    by (rule conv_df_length)
  show "distinct (map fst (conv_kept t))"
    by (rule conv_kept_distinct)
  show "conv_df example_df 5 =
        [(''CHN'', 26, 70, Some (float64 (371 / 10))), (''USA'', 92, 225, Some (float64 (409 / 10)))]"
    by code_simp
  show "conv_df example_df 1 = [(''USA'', 92, 225, Some (float64 (409 / 10)))]"
    by code_simp
qed

theorem conv_df_rate_witness:
  "length (conv_df example_df 1) = min (nat 1) (length (conv_kept example_df))
   \<and> conv_df example_df 5 =
        [(''CHN'', 26, 70, Some (float64 (371 / 10))), (''USA'', 92, 225, Some (float64 (409 / 10)))]
   \<and> conv_df example_df 1 = [(''USA'', 92, 225, Some (float64 (409 / 10)))]
   \<and> (\<exists>q q'. Some (float64 (409 / 10)) = Some q \<and> gold_pct 26 70 = Some q' \<and> q' \<le> q)"
proof -
  have a: "(''USA'', 92, 225, Some (float64 (409 / 10))) \<in> set (conv_df example_df 1)"
    by code_simp
  have b: "(''CHN'', 26, 70) \<in> set (conv_kept example_df)"
    by code_simp
  have c: "(''CHN'', 26, 70, gold_pct 26 70) \<notin> set (conv_df example_df 1)"
    by code_simp
  from conv_df_rate [of example_df 1] a b c show ?thesis
    by fastforce
qed

end
